theory Spec2Isabelle
  imports Complex_Main "HOL-Library.Sublist"
begin

section \<open>The parsed document\<close>

text \<open>
  The checkers of \<^verbatim>\<open>WebAccessibilityChecker\<close> (src/main.py) read a BeautifulSoup tree.
  A tree node is a tag, with its name, its attribute dictionary and its children in
  document order, or a text string. The \<^verbatim>\<open>BeautifulSoup\<close> object itself is the tag
  named \<^verbatim>\<open>[document]\<close> at the root. Strings are sequences of characters with code
  points below 256; attribute values are strings, as they are for every attribute the
  checkers read.
\<close>

datatype node =
    Tag (name: string) (attrs: "(string \<times> string) list") (contents: "node list")
  | NavigableString string

text \<open>\<^verbatim>\<open>tag.has_attr(k)\<close>, \<^verbatim>\<open>tag.get(k)\<close> and \<^verbatim>\<open>tag.get(k, default)\<close>.\<close>

fun get :: "node \<Rightarrow> string \<Rightarrow> string option" where
  "get (Tag n a cs) k = map_of a k"
| "get (NavigableString s) k = None"

definition has_attr :: "node \<Rightarrow> string \<Rightarrow> bool" where
  "has_attr t k = (get t k \<noteq> None)"

definition get_or :: "node \<Rightarrow> string \<Rightarrow> string \<Rightarrow> string" where
  "get_or t k d = (case get t k of None \<Rightarrow> d | Some v \<Rightarrow> v)"

text \<open>
  \<^verbatim>\<open>tag.descendants\<close>: every node below the tag, in document order. Each node is
  paired with the names of its ancestors, nearest first, which is what
  \<^verbatim>\<open>[p.name for p in node.parents]\<close> lists.
\<close>

fun descendants_in :: "string list \<Rightarrow> node \<Rightarrow> (node \<times> string list) list" where
  "descendants_in ps (NavigableString s) = []"
| "descendants_in ps (Tag n a cs) =
     concat (map (\<lambda>c. (c, n # ps) # descendants_in (n # ps) c) cs)"

definition descendants :: "node \<Rightarrow> (node \<times> string list) list" where
  "descendants t = descendants_in [] t"

fun is_tag :: "node \<Rightarrow> bool" where
  "is_tag (Tag n a cs) = True"
| "is_tag (NavigableString s) = False"

fun named :: "string list \<Rightarrow> node \<Rightarrow> bool" where
  "named ns (Tag n a cs) = (n \<in> set ns)"
| "named ns (NavigableString s) = False"

text \<open>
  \<^verbatim>\<open>tag.find_all(names)\<close>: the descendant tags whose name is one of \<open>names\<close>, in
  document order; \<^verbatim>\<open>tag.find(name)\<close> is the first of them, or \<^verbatim>\<open>None\<close>. A tag found
  is truthy whatever it contains.
\<close>

definition find_all_parents :: "string list \<Rightarrow> node \<Rightarrow> (node \<times> string list) list" where
  "find_all_parents ns t = filter (\<lambda>(d, ps). named ns d) (descendants t)"

definition find_all :: "string list \<Rightarrow> node \<Rightarrow> node list" where
  "find_all ns t = map fst (find_all_parents ns t)"

definition find :: "string \<Rightarrow> node \<Rightarrow> node option" where
  "find n t = (case find_all [n] t of [] \<Rightarrow> None | d # ds \<Rightarrow> Some d)"

text \<open>
  \<^verbatim>\<open>soup.find("label", attrs={"for": v})\<close>: the first \<^verbatim>\<open>label\<close> tag whose \<^verbatim>\<open>for\<close>
  attribute is the string \<open>v\<close>.
\<close>

definition find_label_for :: "string \<Rightarrow> node \<Rightarrow> node option" where
  "find_label_for v t =
     (case filter (\<lambda>d. get d ''for'' = Some v) (find_all [''label''] t) of
        [] \<Rightarrow> None | d # ds \<Rightarrow> Some d)"

text \<open>\<^verbatim>\<open>tag.get_text()\<close>: the strings below the tag, concatenated in document order.\<close>

fun get_text :: "node \<Rightarrow> string" where
  "get_text (NavigableString s) = s"
| "get_text (Tag n a cs) = concat (map get_text cs)"

section \<open>Python strings\<close>

text \<open>
  \<^verbatim>\<open>str.isspace\<close> on one character, which is also what \<^verbatim>\<open>str.strip()\<close> removes and
  what \<^verbatim>\<open>\s\<close> matches in a \<^verbatim>\<open>str\<close> pattern: below 256, the code points 9 to 13,
  28 to 32, 133 and 160.
\<close>

definition isspace :: "char \<Rightarrow> bool" where
  "isspace c = (let n = (of_char c :: nat) in
     (9 \<le> n \<and> n \<le> 13) \<or> (28 \<le> n \<and> n \<le> 32) \<or> n = 133 \<or> n = 160)"

definition isdigit :: "char \<Rightarrow> bool" where
  "isdigit c = (let n = (of_char c :: nat) in 48 \<le> n \<and> n \<le> 57)"

definition strip :: "string \<Rightarrow> string" where
  "strip s = rev (dropWhile isspace (rev (dropWhile isspace s)))"

text \<open>
  \<^verbatim>\<open>str.lower()\<close>: below 256 the upper-case letters are A to Z and the code points
  192 to 222 except 215; each is 32 below its lower-case letter.
\<close>

definition lower_char :: "char \<Rightarrow> char" where
  "lower_char c = (let n = (of_char c :: nat) in
     if (65 \<le> n \<and> n \<le> 90) \<or> (192 \<le> n \<and> n \<le> 222 \<and> n \<noteq> 215)
     then char_of (n + 32) else c)"

definition lower :: "string \<Rightarrow> string" where
  "lower s = map lower_char s"

text \<open>\<^verbatim>\<open>str(n)\<close> for a count, as the f-strings format it.\<close>

fun str_nat :: "nat \<Rightarrow> string" where
  "str_nat n = (if n < 10 then [''0123456789'' ! n]
                else str_nat (n div 10) @ [''0123456789'' ! (n mod 10)])"

declare str_nat.simps [simp del]

section \<open>Scores\<close>

text \<open>
  A score is a Python \<^verbatim>\<open>float\<close>. The model computes with exact rationals: the
  constants \<^verbatim>\<open>0.5\<close>, \<^verbatim>\<open>0.1\<close>, \<^verbatim>\<open>0.3\<close> and the weights stand for the decimal
  fractions they are written as, and no operation rounds.
\<close>

type_synonym score = rat

type_synonym result = "score \<times> string list"

section \<open>Images: \<^verbatim>\<open>check_alt_text\<close>\<close>

text \<open>
  The loop body over \<^verbatim>\<open>images\<close>; the state is
  \<^verbatim>\<open>(missing_alt, empty_alt, issues)\<close>.
\<close>

definition alt_text_step :: "node \<Rightarrow> nat \<times> nat \<times> string list \<Rightarrow> nat \<times> nat \<times> string list" where
  "alt_text_step img st =
     (case st of (missing_alt, empty_alt, issues) \<Rightarrow>
        (case get img ''alt'' of
           None \<Rightarrow>
             (missing_alt + 1, empty_alt,
              issues @ [''Image missing alt attribute: '' @ get_or img ''src'' ''unknown''])
         | Some alt \<Rightarrow>
             if strip alt = '''' \<and> \<not> (get img ''role'' = Some ''presentation'') then
               (missing_alt, empty_alt + 1,
                issues @ [''Image has empty alt text: '' @ get_or img ''src'' ''unknown''])
             else (missing_alt, empty_alt, issues)))"

definition check_alt_text :: "node \<Rightarrow> result" where
  "check_alt_text soup =
     (let images = find_all [''img''] soup;
          total_images = length images
      in if total_images = 0 then (1, [])
         else
           (case fold alt_text_step images (0, 0, []) of
              (missing_alt, empty_alt, issues) \<Rightarrow>
                (let score = 1 - ((of_nat missing_alt + of_nat empty_alt * (1/2)) / of_nat total_images)
                 in (max 0 (min score 1), issues))))"

section \<open>Headings: \<^verbatim>\<open>check_heading_structure\<close>\<close>

text \<open>
  \<^verbatim>\<open>int(h.name[1])\<close>, the digit after the \<^verbatim>\<open>h\<close>. The headings come from
  \<^verbatim>\<open>find_all(["h1", ..., "h6"])\<close>, so the name always has that digit; the last
  equation is never reached from the checker.
\<close>

fun heading_level :: "node \<Rightarrow> nat" where
  "heading_level (Tag (h # d # r) a cs) = of_char d - 48"
| "heading_level t = 0"

text \<open>The loop body over \<^verbatim>\<open>levels\<close>; the state is \<^verbatim>\<open>(prev_level, skips, issues)\<close>.\<close>

definition heading_step :: "nat \<Rightarrow> nat \<times> nat \<times> string list \<Rightarrow> nat \<times> nat \<times> string list" where
  "heading_step level st =
     (case st of (prev_level, skips, issues) \<Rightarrow>
        if level > prev_level + 1 \<and> prev_level > 0 then
          (level, skips + 1,
           issues @ [''Heading level skip from h'' @ str_nat prev_level @ '' to h'' @ str_nat level])
        else (level, skips, issues))"

definition check_heading_structure :: "node \<Rightarrow> result" where
  "check_heading_structure soup =
     (let headings = find_all [''h1'', ''h2'', ''h3'', ''h4'', ''h5'', ''h6''] soup
      in if headings = [] then (0, [''No headings found on page''])
         else
           (let h1_count = length (find_all [''h1''] soup);
                issues0 =
                  (if h1_count = 0 then [''No H1 heading found'']
                   else if h1_count > 1 then
                     [''Multiple H1 headings found ('' @ str_nat h1_count @ '')'']
                   else []);
                levels = map heading_level headings
            in case fold heading_step levels (0, 0, issues0) of
                 (prev_level, skips, issues) \<Rightarrow>
                   (let score1 =
                          (if h1_count = 0 then 1 - 1/2
                           else if h1_count > 1 then 1 - 3/10
                           else 1);
                        score2 =
                          (if skips > 0 then score1 - min (1/2) (of_nat skips * (1/10))
                           else score1)
                    in (max 0 score2, issues))))"

section \<open>Links: \<^verbatim>\<open>check_descriptive_links\<close>\<close>

definition poor_link_texts :: "string list" where
  "poor_link_texts =
     [''click here'', ''read more'', ''more'', ''link'', ''here'', ''this'', ''page'']"

text \<open>The loop body over \<^verbatim>\<open>links\<close>; the state is \<^verbatim>\<open>(poor_links, issues)\<close>.\<close>

definition links_step :: "node \<Rightarrow> nat \<times> string list \<Rightarrow> nat \<times> string list" where
  "links_step link st =
     (case st of (poor_links, issues) \<Rightarrow>
        (let link_text = lower (strip (get_text link))
         in if find ''img'' link \<noteq> None \<and> link_text = [] then (poor_links, issues)
            else if link_text = [] then
              (poor_links + 1,
               issues @ [''Empty link text: '' @ get_or link ''href'' ''unknown''])
            else if link_text \<in> set poor_link_texts \<or> length link_text < 3 then
              (poor_links + 1,
               issues @ [''Non-descriptive link text: '' @ [CHR 0x27] @ link_text @ [CHR 0x27]
                         @ '' for '' @ get_or link ''href'' ''unknown''])
            else (poor_links, issues)))"

definition check_descriptive_links :: "node \<Rightarrow> result" where
  "check_descriptive_links soup =
     (let links = find_all [''a''] soup
      in if links = [] then (1, [])
         else
           (let total_links = length links
            in case fold links_step links (0, []) of
                 (poor_links, issues) \<Rightarrow>
                   (let score = 1 - (of_nat poor_links / of_nat total_links)
                    in (max 0 score, issues))))"

section \<open>Forms: \<^verbatim>\<open>check_form_labels\<close>\<close>

definition excluded_types :: "string list" where
  "excluded_types = [''hidden'', ''submit'', ''button'', ''image'']"

text \<open>
  The loop body over \<^verbatim>\<open>inputs\<close>; the state is
  \<^verbatim>\<open>(total_inputs, unlabeled, issues)\<close>. Each control comes with the names of its
  ancestors, for \<^verbatim>\<open>inp.parents\<close>.
\<close>

definition form_labels_step ::
  "node \<Rightarrow> node \<times> string list \<Rightarrow> nat \<times> nat \<times> string list \<Rightarrow> nat \<times> nat \<times> string list" where
  "form_labels_step soup inp_ps st =
     (case inp_ps of (inp, parents) \<Rightarrow>
      case st of (total_inputs, unlabeled, issues) \<Rightarrow>
        if named [''input''] inp \<and>
           (case get inp ''type'' of None \<Rightarrow> False | Some ty \<Rightarrow> ty \<in> set excluded_types)
        then (total_inputs, unlabeled, issues)
        else
          (let has_label1 =
                 (case get inp ''id'' of
                    None \<Rightarrow> False
                  | Some i \<Rightarrow> find_label_for i soup \<noteq> None);
               parent_labels = filter (\<lambda>p. p = ''label'') parents;
               has_label2 = (if parent_labels \<noteq> [] then True else has_label1);
               has_label3 =
                 (case get inp ''aria-label'' of
                    None \<Rightarrow> has_label2
                  | Some v \<Rightarrow> if strip v \<noteq> [] then True else has_label2)
           in if \<not> has_label3 then
                (total_inputs + 1, unlabeled + 1,
                 issues @ [''Form control missing label: '' @ get_or inp ''name'' ''unnamed''
                           @ '' '' @ get_or inp ''type'' ''''])
              else (total_inputs + 1, unlabeled, issues)))"

definition check_form_labels :: "node \<Rightarrow> result" where
  "check_form_labels soup =
     (let inputs = find_all_parents [''input'', ''select'', ''textarea''] soup
      in if inputs = [] then (1, [])
         else
           (case fold (form_labels_step soup) inputs (0, 0, []) of
              (total_inputs, unlabeled, issues) \<Rightarrow>
                if total_inputs = 0 then (1, [])
                else
                  (let score = 1 - (of_nat unlabeled / of_nat total_inputs)
                   in (max 0 score, issues))))"

section \<open>Structure: \<^verbatim>\<open>check_semantic_structure\<close>\<close>

definition check_semantic_structure :: "node \<Rightarrow> result" where
  "check_semantic_structure soup =
     (let semantics =
            find_all [''header'', ''footer'', ''nav'', ''main'', ''article'', ''section'', ''aside''] soup;
          landmarks = length semantics;
          score = min 1 (of_nat landmarks / 3);
          issues = (if landmarks = 0 then [''No semantic HTML elements found''] else [])
      in if find ''main'' soup = None then
           (max 0 (score - 3/10), issues @ [''No <main> element found''])
         else (max 0 score, issues))"

section \<open>Regular expressions: \<^verbatim>\<open>re.search\<close>\<close>

text \<open>
  The two patterns of the contrast checker use literals, the classes \<^verbatim>\<open>[ef]\<close>,
  \<^verbatim>\<open>[0-2]\<close>, \<^verbatim>\<open>[3-5]\<close>, \<^verbatim>\<open>\s\<close>, \<^verbatim>\<open>\d\<close>, concatenation, alternation and
  \<^verbatim>\<open>*\<close>. A pattern is a value of \<open>regex\<close>; \<open>Zero\<close>, which matches nothing, and
  \<open>One\<close>, which matches the empty string, only arise while matching.
\<close>

datatype regex =
    Zero
  | One
  | Chr char
  | Cls "char list"
  | Space
  | Digit
  | Seq regex regex
  | Alt regex regex
  | Star regex

fun Lit :: "string \<Rightarrow> regex" where
  "Lit [] = One"
| "Lit (c # cs) = Seq (Chr c) (Lit cs)"

fun nullable :: "regex \<Rightarrow> bool" where
  "nullable Zero = False"
| "nullable One = True"
| "nullable (Chr c) = False"
| "nullable (Cls cs) = False"
| "nullable Space = False"
| "nullable Digit = False"
| "nullable (Seq r s) = (nullable r \<and> nullable s)"
| "nullable (Alt r s) = (nullable r \<or> nullable s)"
| "nullable (Star r) = True"

text \<open>\<open>deriv c r\<close> matches what remains of a match of \<open>r\<close> after its first character \<open>c\<close>.\<close>

fun deriv :: "char \<Rightarrow> regex \<Rightarrow> regex" where
  "deriv c Zero = Zero"
| "deriv c One = Zero"
| "deriv c (Chr d) = (if c = d then One else Zero)"
| "deriv c (Cls cs) = (if c \<in> set cs then One else Zero)"
| "deriv c Space = (if isspace c then One else Zero)"
| "deriv c Digit = (if isdigit c then One else Zero)"
| "deriv c (Seq r s) =
     (if nullable r then Alt (Seq (deriv c r) s) (deriv c s) else Seq (deriv c r) s)"
| "deriv c (Alt r s) = Alt (deriv c r) (deriv c s)"
| "deriv c (Star r) = Seq (deriv c r) (Star r)"

text \<open>
  \<^verbatim>\<open>re.match(r, s)\<close> as a truth value: some prefix of \<open>s\<close> matches \<open>r\<close>.
  \<^verbatim>\<open>re.search(r, s)\<close> as a truth value: a match starts at some position of \<open>s\<close>.
\<close>

fun re_match :: "regex \<Rightarrow> string \<Rightarrow> bool" where
  "re_match r [] = nullable r"
| "re_match r (c # cs) = (nullable r \<or> re_match (deriv c r) cs)"

fun re_search :: "regex \<Rightarrow> string \<Rightarrow> bool" where
  "re_search r [] = re_match r []"
| "re_search r (c # cs) = (re_match r (c # cs) \<or> re_search r cs)"

section \<open>Contrast: \<^verbatim>\<open>check_color_contrast\<close>\<close>

text \<open>
  \<^verbatim>\<open>color:\s*#[ef][ef][ef]|color:\s*rgb\(2[3-5]\d\<close> and
  \<^verbatim>\<open>color:\s*#[0-2][0-2][0-2]|color:\s*rgb\([0-2]\d\<close>.
\<close>

definition light_pattern :: regex where
  "light_pattern =
     Alt (Seq (Lit ''color:'') (Seq (Star Space)
            (Seq (Chr CHR ''#'') (Seq (Cls ''ef'') (Seq (Cls ''ef'') (Cls ''ef''))))))
         (Seq (Lit ''color:'') (Seq (Star Space)
            (Seq (Lit ''rgb(2'') (Seq (Cls ''345'') Digit))))"

definition dark_pattern :: regex where
  "dark_pattern =
     Alt (Seq (Lit ''color:'') (Seq (Star Space)
            (Seq (Chr CHR ''#'') (Seq (Cls ''012'') (Seq (Cls ''012'') (Cls ''012''))))))
         (Seq (Lit ''color:'') (Seq (Star Space)
            (Seq (Lit ''rgb('') (Seq (Cls ''012'') Digit))))"

text \<open>
  \<^verbatim>\<open>soup.select('[style*="color"]')\<close>: the descendant tags that have a \<^verbatim>\<open>style\<close>
  attribute whose value contains \<^verbatim>\<open>color\<close>, in document order.
\<close>

definition select_style_color :: "node \<Rightarrow> node list" where
  "select_style_color soup =
     filter (\<lambda>d. is_tag d \<and> (case get d ''style'' of None \<Rightarrow> False | Some v \<Rightarrow> sublist ''color'' v))
       (map fst (descendants soup))"

text \<open>
  The loop body over \<^verbatim>\<open>elements_with_color\<close>; the state is
  \<^verbatim>\<open>(potential_issues, issues)\<close>.
\<close>

definition color_contrast_step :: "node \<Rightarrow> nat \<times> string list \<Rightarrow> nat \<times> string list" where
  "color_contrast_step element st =
     (case st of (potential_issues, issues) \<Rightarrow>
        (let style = get_or element ''style'' '''';
             st1 = (if re_search light_pattern style
                    then (potential_issues + 1, issues @ [''Potential low contrast light text''])
                    else (potential_issues, issues))
         in if re_search dark_pattern style
            then (fst st1 + 1, snd st1 @ [''Potential low contrast dark text''])
            else st1))"

definition check_color_contrast :: "node \<Rightarrow> result" where
  "check_color_contrast soup =
     (let elements_with_color = select_style_color soup
      in case fold color_contrast_step elements_with_color (0, []) of
           (potential_issues, issues) \<Rightarrow>
             (let score = 1 - min (1/2) (of_nat potential_issues * (1/10))
              in (score,
                  if issues = [] then [''Limited contrast check performed (inline styles only)'']
                  else issues)))"

section \<open>The aggregator: \<^verbatim>\<open>run_accessibility_check\<close>\<close>

text \<open>
  What \<^verbatim>\<open>requests.get\<close>, \<^verbatim>\<open>raise_for_status\<close> and the parser give for a URL: a
  \<^verbatim>\<open>RequestException\<close>, or the top-level nodes of the parsed page.
\<close>

datatype response = RequestException | Page "node list"

definition fetch_url :: "(string \<Rightarrow> response) \<Rightarrow> string \<Rightarrow> node option" where
  "fetch_url web u =
     (case web u of
        RequestException \<Rightarrow> None
      | Page cs \<Rightarrow> Some (Tag ''[document]'' [] cs))"

text \<open>
  The report dictionary. \<open>categories\<close> keeps the insertion order of the Python
  dictionary; a category's value is its \<^verbatim>\<open>score\<close> and its \<^verbatim>\<open>issues\<close>.
\<close>

record report =
  url :: string
  total_score :: int
  categories :: "(string \<times> result) list"
  issues :: "string list"

definition category_weights :: "(string \<times> rat) list" where
  "category_weights =
     [(''images'', 15/100), (''headings'', 15/100), (''links'', 10/100),
      (''forms'', 15/100), (''structure'', 20/100), (''contrast'', 15/100)]"

text \<open>The loop body over \<^verbatim>\<open>results["categories"].items()\<close>; the state is
  \<^verbatim>\<open>(total_score, total_weight)\<close>, written \<open>(total_sc, total_weight)\<close>.\<close>

definition weight_step :: "string \<times> result \<Rightarrow> rat \<times> rat \<Rightarrow> rat \<times> rat" where
  "weight_step item st =
     (case item of (category, details) \<Rightarrow>
      case st of (total_sc, total_weight) \<Rightarrow>
        (case map_of category_weights category of
           None \<Rightarrow> (total_sc, total_weight)
         | Some w \<Rightarrow> (total_sc + fst details * w, total_weight + w)))"

text \<open>
  Python's \<^verbatim>\<open>round(x)\<close> with one argument: the nearest integer, and the even one of
  the two when \<open>x\<close> is halfway between them.
\<close>

definition py_round :: "rat \<Rightarrow> int" where
  "py_round x =
     (let f = \<lfloor>x\<rfloor>; d = x - of_int f
      in if d < 1/2 then f
         else if d > 1/2 then f + 1
         else if even f then f else f + 1)"

definition run_accessibility_check :: "(string \<Rightarrow> response) \<Rightarrow> string \<Rightarrow> report" where
  "run_accessibility_check web u =
     (case fetch_url web u of
        None \<Rightarrow>
          \<lparr>url = u, total_score = 0, categories = [], issues = [''Failed to fetch URL'']\<rparr>
      | Some soup \<Rightarrow>
          (let alt = check_alt_text soup;
               headings = check_heading_structure soup;
               links = check_descriptive_links soup;
               forms = check_form_labels soup;
               structure = check_semantic_structure soup;
               contrast = check_color_contrast soup;
               cats = [(''images'', alt), (''headings'', headings), (''links'', links),
                       (''forms'', forms), (''structure'', structure), (''contrast'', contrast)];
               all_issues = snd alt @ snd headings @ snd links @ snd forms
                            @ snd structure @ snd contrast
           in case fold weight_step cats (0, 0) of
                (total_sc, total_weight) \<Rightarrow>
                  (let normalized_score = (if total_weight > 0 then total_sc / total_weight else 0)
                   in \<lparr>url = u, total_score = py_round (normalized_score * 100),
                        categories = cats, issues = all_issues\<rparr>)))"

section \<open>Notions used in the statements\<close>

subsection \<open>Images\<close>

text \<open>
  An image is a full miss when it has no \<^verbatim>\<open>alt\<close> attribute, and a half miss when its
  \<^verbatim>\<open>alt\<close> is made of white space only (or is empty) and its role is not
  \<^verbatim>\<open>presentation\<close>. The issue of a miss names the image by its \<^verbatim>\<open>src\<close>.
\<close>

definition full_miss :: "node \<Rightarrow> bool" where
  "full_miss img = (\<not> has_attr img ''alt'')"

definition half_miss :: "node \<Rightarrow> bool" where
  "half_miss img =
     (case get img ''alt'' of
        None \<Rightarrow> False
      | Some alt \<Rightarrow> list_all isspace alt \<and> get img ''role'' \<noteq> Some ''presentation'')"

definition alt_issue :: "node \<Rightarrow> string" where
  "alt_issue img =
     (if full_miss img then ''Image missing alt attribute: '' @ get_or img ''src'' ''unknown''
      else ''Image has empty alt text: '' @ get_or img ''src'' ''unknown'')"

definition alt_example :: node where
  "alt_example = Tag ''[document]'' [] [
     Tag ''img'' [(''src'', ''a.png'')] [],
     Tag ''div'' [] [Tag ''img'' [(''src'', ''b.png''), (''alt'', ''  '')] [], NavigableString ''x''],
     Tag ''img'' [(''alt'', ''''), (''role'', ''presentation'')] [],
     Tag ''img'' [(''src'', ''d.png''), (''alt'', ''Logo'')] []]"

subsection \<open>Headings\<close>

text \<open>
  Two consecutive headings are a skip when the level of the second exceeds the level of
  the first by more than one.
\<close>

definition heading_names :: "string list" where
  "heading_names = [''h1'', ''h2'', ''h3'', ''h4'', ''h5'', ''h6'']"

definition is_skip :: "nat \<times> nat \<Rightarrow> bool" where
  "is_skip pl = (case pl of (prev_level, level) \<Rightarrow> level > prev_level + 1)"

definition skip_issue :: "nat \<times> nat \<Rightarrow> string" where
  "skip_issue pl = (case pl of (prev_level, level) \<Rightarrow>
     ''Heading level skip from h'' @ str_nat prev_level @ '' to h'' @ str_nat level)"

definition h1_issue :: "nat \<Rightarrow> string list" where
  "h1_issue h1s =
     (if h1s = 0 then [''No H1 heading found'']
      else if h1s > 1 then [''Multiple H1 headings found ('' @ str_nat h1s @ '')'']
      else [])"

definition heading_example :: node where
  "heading_example = Tag ''[document]'' [] [
     Tag ''h1'' [] [NavigableString ''Title''],
     Tag ''p'' [] [NavigableString ''text''],
     Tag ''h3'' [] [NavigableString ''Details'']]"

subsection \<open>Links\<close>

text \<open>
  The text of an anchor is trimmed and put in lower case. An anchor without text that
  contains an \<^verbatim>\<open>img\<close> tag, at any depth, is skipped; otherwise it is a miss when its
  text is empty, is in the list of poor texts or has fewer than 3 characters.
\<close>

definition link_text :: "node \<Rightarrow> string" where
  "link_text a = lower (strip (get_text a))"

definition link_skipped :: "node \<Rightarrow> bool" where
  "link_skipped a = (find_all [''img''] a \<noteq> [] \<and> link_text a = [])"

definition link_miss :: "node \<Rightarrow> bool" where
  "link_miss a =
     (\<not> link_skipped a \<and>
      (link_text a = [] \<or> link_text a \<in> set poor_link_texts \<or> length (link_text a) < 3))"

definition link_issue :: "node \<Rightarrow> string" where
  "link_issue a =
     (if link_text a = [] then ''Empty link text: '' @ get_or a ''href'' ''unknown''
      else ''Non-descriptive link text: '' @ [CHR 0x27] @ link_text a @ [CHR 0x27]
           @ '' for '' @ get_or a ''href'' ''unknown'')"


subsection \<open>Forms\<close>

text \<open>
  A control qualifies unless it is an \<^verbatim>\<open>input\<close> whose type is one of the excluded
  types. It is labeled when a \<^verbatim>\<open>label\<close> tag of the document has its id as \<^verbatim>\<open>for\<close>
  attribute, or one of its ancestors is a \<^verbatim>\<open>label\<close> tag, or its \<^verbatim>\<open>aria-label\<close> has a
  character that is not white space.
\<close>

definition control_names :: "string list" where
  "control_names = [''input'', ''select'', ''textarea'']"

definition qualifying :: "node \<times> string list \<Rightarrow> bool" where
  "qualifying c = (case c of (inp, parents) \<Rightarrow>
     \<not> (named [''input''] inp \<and>
        (case get inp ''type'' of None \<Rightarrow> False | Some ty \<Rightarrow> ty \<in> set excluded_types)))"

definition labeled :: "node \<Rightarrow> node \<times> string list \<Rightarrow> bool" where
  "labeled soup c = (case c of (inp, parents) \<Rightarrow>
     (case get inp ''id'' of
        None \<Rightarrow> False
      | Some i \<Rightarrow> list_ex (\<lambda>l. get l ''for'' = Some i) (find_all [''label''] soup))
     \<or> ''label'' \<in> set parents
     \<or> (case get inp ''aria-label'' of None \<Rightarrow> False | Some v \<Rightarrow> \<not> list_all isspace v))"

definition form_issue :: "node \<times> string list \<Rightarrow> string" where
  "form_issue c = (case c of (inp, parents) \<Rightarrow>
     ''Form control missing label: '' @ get_or inp ''name'' ''unnamed''
       @ '' '' @ get_or inp ''type'' '''')"


subsection \<open>Structure\<close>

definition landmark_names :: "string list" where
  "landmark_names =
     [''header'', ''footer'', ''nav'', ''main'', ''article'', ''section'', ''aside'']"

definition structure_example :: node where
  "structure_example = Tag ''[document]'' [] [
     Tag ''div'' [] [Tag ''p'' [] [NavigableString ''text'']]]"

subsection \<open>Contrast\<close>

text \<open>The issues one selected element adds: at most one for each of the two patterns.\<close>

definition contrast_hits :: "node \<Rightarrow> string list" where
  "contrast_hits element =
     (if re_search light_pattern (get_or element ''style'' '''')
      then [''Potential low contrast light text''] else [])
     @ (if re_search dark_pattern (get_or element ''style'' '''')
        then [''Potential low contrast dark text''] else [])"

text \<open>
  The strings a pattern matches, as a set: the usual semantics of regular expressions,
  against which the matcher is proved.
\<close>

inductive_set star :: "string set \<Rightarrow> string set" for A :: "string set" where
  star_Nil: "[] \<in> star A"
| star_App: "u \<in> A \<Longrightarrow> v \<in> star A \<Longrightarrow> u @ v \<in> star A"

fun lang :: "regex \<Rightarrow> string set" where
  "lang Zero = {}"
| "lang One = {[]}"
| "lang (Chr c) = {[c]}"
| "lang (Cls cs) = {[c] | c. c \<in> set cs}"
| "lang Space = {[c] | c. isspace c}"
| "lang Digit = {[c] | c. isdigit c}"
| "lang (Seq r s) = {u @ v | u v. u \<in> lang r \<and> v \<in> lang s}"
| "lang (Alt r s) = lang r \<union> lang s"
| "lang (Star r) = star (lang r)"

text \<open>
  What the two patterns look for, said without regular expressions. \<open>color_values\<close>
  lists, for every occurrence of \<^verbatim>\<open>color:\<close> in a style, what follows it and its white
  space. \<open>hex3 cls v\<close>: the value starts with \<^verbatim>\<open>#\<close> and three characters of \<open>cls\<close>.
  \<open>rgb2 pre cls v\<close>: the value starts with \<open>pre\<close>, a character of \<open>cls\<close> and a digit.
  \<open>two_digits v\<close>: no third digit follows the two characters after \<^verbatim>\<open>rgb(\<close>.
\<close>

fun color_values :: "string \<Rightarrow> string list" where
  "color_values [] = []"
| "color_values (c # cs) =
     (if prefix ''color:'' (c # cs) then [dropWhile isspace (drop 6 (c # cs))] else [])
     @ color_values cs"

fun hex3 :: "string \<Rightarrow> string \<Rightarrow> bool" where
  "hex3 cls (h # x # y # z # r) = (h = CHR ''#'' \<and> x \<in> set cls \<and> y \<in> set cls \<and> z \<in> set cls)"
| "hex3 cls v = False"

definition rgb2 :: "string \<Rightarrow> string \<Rightarrow> string \<Rightarrow> bool" where
  "rgb2 pre cls v = (prefix pre v \<and>
     (case drop (length pre) v of d # e # r \<Rightarrow> d \<in> set cls \<and> isdigit e | _ \<Rightarrow> False))"

definition two_digits :: "string \<Rightarrow> bool" where
  "two_digits v = (case drop 6 v of [] \<Rightarrow> True | f # r \<Rightarrow> \<not> isdigit f)"

definition light_hit :: "string \<Rightarrow> bool" where
  "light_hit style =
     list_ex (\<lambda>v. hex3 ''ef'' v \<or> rgb2 ''rgb(2'' ''345'' v) (color_values style)"

definition dark_hit :: "string \<Rightarrow> bool" where
  "dark_hit style =
     list_ex (\<lambda>v. hex3 ''012'' v \<or> rgb2 ''rgb('' ''012'' v) (color_values style)"

definition dark_hit_two_digits :: "string \<Rightarrow> bool" where
  "dark_hit_two_digits style =
     list_ex (\<lambda>v. hex3 ''012'' v \<or> (rgb2 ''rgb('' ''012'' v \<and> two_digits v))
       (color_values style)"

text \<open>
  The specification's reading of a hex colour: its red, green and blue channels, from
  six hex digits or from three, and the test that every channel is at least \<open>0xE0\<close>.
\<close>

definition hex_digit :: "char \<Rightarrow> nat option" where
  "hex_digit c = (let n = (of_char c :: nat) in
     if 48 \<le> n \<and> n \<le> 57 then Some (n - 48)
     else if 97 \<le> n \<and> n \<le> 102 then Some (n - 87)
     else if 65 \<le> n \<and> n \<le> 70 then Some (n - 55)
     else None)"

fun channels :: "nat option list \<Rightarrow> (nat \<times> nat \<times> nat) option" where
  "channels [Some r1, Some r2, Some g1, Some g2, Some b1, Some b2] =
     Some (16 * r1 + r2, 16 * g1 + g2, 16 * b1 + b2)"
| "channels [Some r, Some g, Some b] = Some (17 * r, 17 * g, 17 * b)"
| "channels ds = None"

fun hex_channels :: "string \<Rightarrow> (nat \<times> nat \<times> nat) option" where
  "hex_channels [] = None"
| "hex_channels (h # ds) = (if h = CHR ''#'' then channels (map hex_digit ds) else None)"

definition every_channel_light :: "string \<Rightarrow> bool" where
  "every_channel_light v =
     (case hex_channels v of
        None \<Rightarrow> False
      | Some (r, g, b) \<Rightarrow> 224 \<le> r \<and> 224 \<le> g \<and> 224 \<le> b)"

definition pale_example :: node where
  "pale_example = Tag ''[document]'' [] [
     Tag ''p'' [(''style'', ''color: #e0e0e0'')] [NavigableString ''pale''],
     Tag ''p'' [(''style'', ''color: #FFFFFF'')] [NavigableString ''white'']]"

definition contrast_example :: node where
  "contrast_example = Tag ''[document]'' [] [
     Tag ''p'' [(''style'', ''color: #fff'')] [NavigableString ''a''],
     Tag ''p'' [(''style'', ''color: rgb(20, 20, 20)'')] [NavigableString ''b''],
     Tag ''p'' [(''style'', ''color: #eee; background-color: #000'')] [NavigableString ''c''],
     Tag ''span'' [(''style'', ''font-size: 12px'')] [NavigableString ''d''],
     Tag ''p'' [(''style'', ''color: #e0e0e0'')] [NavigableString ''e'']]"

subsection \<open>The weighted total\<close>

text \<open>
  The weight of a category, 0 for a name without a weight, and the weighted average of
  the scores of a list of category results.
\<close>

definition weight_of :: "string \<Rightarrow> rat" where
  "weight_of category = (case map_of category_weights category of None \<Rightarrow> 0 | Some w \<Rightarrow> w)"

definition weighted_average :: "(string \<times> result) list \<Rightarrow> rat" where
  "weighted_average cats =
     sum_list (map (\<lambda>(category, details). fst details * weight_of category) cats)
     / sum_list (map (\<lambda>(category, details). weight_of category) cats)"

definition six_results :: "node \<Rightarrow> (string \<times> result) list" where
  "six_results soup =
     [(''images'', check_alt_text soup),
      (''headings'', check_heading_structure soup),
      (''links'', check_descriptive_links soup),
      (''forms'', check_form_labels soup),
      (''structure'', check_semantic_structure soup),
      (''contrast'', check_color_contrast soup)]"

subsection \<open>Fetching\<close>


definition perfect_page :: "node list" where
  "perfect_page =
     [Tag ''header'' [] [Tag ''h1'' [] [NavigableString ''Welcome'']],
      Tag ''main'' [] [Tag ''p'' [] [NavigableString ''text'']],
      Tag ''footer'' [] []]"

definition online :: "string \<Rightarrow> response" where
  "online u = Page perfect_page"

definition mixed_web :: "string \<Rightarrow> response" where
  "mixed_web u = Page (contents alt_example)"

section \<open>Auxiliary facts\<close>

lemma find_all_filter: "find_all ns t = filter (named ns) (map fst (descendants t))"
  unfolding find_all_def find_all_parents_def
  by (induction "descendants t") (auto simp: filter_map comp_def case_prod_unfold)

lemma find_None_iff: "find n t = None \<longleftrightarrow> find_all [n] t = []"
  by (simp add: find_def split: list.splits)

lemma find_all_mono:
  assumes "set ns \<subseteq> set ms" and "find_all ms t = []"
  shows "find_all ns t = []"
proof -
  have "named ns d \<Longrightarrow> named ms d" for d using assms(1) by (cases d) auto
  then show ?thesis using assms(2) by (auto simp: find_all_filter filter_empty_conv)
qed

lemma strip_Nil_iff: "strip s = [] \<longleftrightarrow> (\<forall>c\<in>set s. isspace c)"
proof
  assume "strip s = []"
  then have "\<forall>x\<in>set (dropWhile isspace s). isspace x"
    by (simp add: strip_def)
  then have "dropWhile isspace s = []"
    using hd_dropWhile [of isspace s] by (cases "dropWhile isspace s") auto
  then show "\<forall>c\<in>set s. isspace c"
    by simp
next
  assume "\<forall>c\<in>set s. isspace c"
  then have d: "dropWhile isspace s = []"
    by simp
  show "strip s = []"
    unfolding strip_def d by simp
qed

lemma ratio_clamp:
  "max 0 (1 - of_nat (length (filter P xs)) / (of_nat (length xs) :: rat)) =
   max 0 (min 1 (1 - of_nat (length (filter P xs)) / of_nat (length xs)))"
proof -
  have "1 - of_nat (length (filter P xs)) / (of_nat (length xs) :: rat) \<le> 1" by simp
  then show ?thesis by (simp only: min_absorb2)
qed

lemma py_round_bounds:
  assumes "0 \<le> x" "x \<le> of_int n"
  shows "0 \<le> py_round x \<and> py_round x \<le> n"
proof -
  have f0: "0 \<le> \<lfloor>x\<rfloor>" using assms(1) by simp
  have fn: "\<lfloor>x\<rfloor> \<le> n" using assms(2) by (simp add: floor_le_iff)
  show ?thesis
  proof (cases "\<lfloor>x\<rfloor> = n")
    case True
    then have "x - of_int \<lfloor>x\<rfloor> < 1/2" using assms(2) by simp
    then show ?thesis using f0 True by (simp add: py_round_def Let_def)
  next
    case False
    then have "\<lfloor>x\<rfloor> + 1 \<le> n" using fn by simp
    then show ?thesis using f0 fn by (simp add: py_round_def Let_def)
  qed
qed


lemma py_round_of_int: "py_round (of_int n) = n"
  by (simp add: py_round_def)

section \<open>Fetch failure\<close>



section \<open>Images\<close>

lemma alt_text_fold:
  "fold alt_text_step imgs (m, e, is) =
     (m + length (filter full_miss imgs), e + length (filter half_miss imgs),
      is @ map alt_issue (filter (\<lambda>i. full_miss i \<or> half_miss i) imgs))"
  by (induction imgs arbitrary: m e "is")
     (auto simp: alt_text_step_def full_miss_def half_miss_def alt_issue_def has_attr_def
        strip_Nil_iff list_all_iff split: option.splits)

lemma check_alt_text_eq:
  "check_alt_text soup =
     (let images = find_all [''img''] soup;
          fullMisses = length (filter full_miss images);
          halfMisses = length (filter half_miss images)
      in if images = [] then (1, [])
         else (max 0 (min 1 (1 - (of_nat fullMisses + (1/2) * of_nat halfMisses)
                                  / of_nat (length images))),
               map alt_issue (filter (\<lambda>i. full_miss i \<or> half_miss i) images)))"
  by (simp add: check_alt_text_def alt_text_fold Let_def min.commute)

text \<open>
  C4: without images the alt-text checker returns 1.0 and no issue. Otherwise the score
  is \<open>1 - (fullMisses + 0.5 * halfMisses) / totalImages\<close> clamped to \<open>[0, 1]\<close>, with one
  issue for each image that is a full or a half miss, in document order. Four images
  with one full miss and one half miss score 0.625.
\<close>

theorem C4_alt_text:
  "check_alt_text soup =
     (let images = find_all [''img''] soup;
          fullMisses = length (filter full_miss images);
          halfMisses = length (filter half_miss images)
      in if images = [] then (1, [])
         else (max 0 (min 1 (1 - (of_nat fullMisses + (1/2) * of_nat halfMisses)
                                  / of_nat (length images))),
               map alt_issue (filter (\<lambda>i. full_miss i \<or> half_miss i) images)))
   \<and> (length (find_all [''img''] soup) = 4
        \<and> length (filter full_miss (find_all [''img''] soup)) = 1
        \<and> length (filter half_miss (find_all [''img''] soup)) = 1
      \<longrightarrow> fst (check_alt_text soup) = 625/1000)"
proof -
  have e: "fst (check_alt_text soup) = 625/1000"
    if "length (find_all [''img''] soup) = 4"
       "length (filter full_miss (find_all [''img''] soup)) = 1"
       "length (filter half_miss (find_all [''img''] soup)) = 1"
  proof -
    from that(1) have "find_all [''img''] soup \<noteq> []" by auto
    then show ?thesis unfolding check_alt_text_eq Let_def using that by simp
  qed
  show ?thesis using check_alt_text_eq [of soup] e by blast
qed

theorem C4_alt_text_witness:
  "length (find_all [''img''] alt_example) = 4 \<and>
   length (filter full_miss (find_all [''img''] alt_example)) = 1 \<and>
   length (filter half_miss (find_all [''img''] alt_example)) = 1 \<and>
   fst (check_alt_text alt_example) = 625/1000 \<and>
   snd (check_alt_text alt_example) =
     [''Image missing alt attribute: a.png'', ''Image has empty alt text: b.png'']"
proof -
  have imgs: "find_all [''img''] alt_example =
      [Tag ''img'' [(''src'', ''a.png'')] [],
       Tag ''img'' [(''src'', ''b.png''), (''alt'', ''  '')] [],
       Tag ''img'' [(''alt'', ''''), (''role'', ''presentation'')] [],
       Tag ''img'' [(''src'', ''d.png''), (''alt'', ''Logo'')] []]"
    by (simp add: alt_example_def find_all_def find_all_parents_def descendants_def)
  have h: "length (find_all [''img''] alt_example) = 4 \<and>
      length (filter full_miss (find_all [''img''] alt_example)) = 1 \<and>
      length (filter half_miss (find_all [''img''] alt_example)) = 1"
    unfolding imgs by (simp add: full_miss_def half_miss_def has_attr_def isspace_def)
  have s: "snd (check_alt_text alt_example) =
      [''Image missing alt attribute: a.png'', ''Image has empty alt text: b.png'']"
    using C4_alt_text [of alt_example] unfolding imgs Let_def
    by (simp add: full_miss_def half_miss_def has_attr_def isspace_def alt_issue_def get_or_def)
  have e: "fst (check_alt_text alt_example) = 625/1000"
    using conjunct2 [OF C4_alt_text [of alt_example]] h by blast
  show ?thesis using h s e by blast
qed

section \<open>Headings\<close>

lemma heading_fold:
  "0 < p \<Longrightarrow> \<forall>l\<in>set ls. 0 < l \<Longrightarrow>
   fold heading_step ls (p, k, is) =
     (last (p # ls), k + length (filter is_skip (zip (p # ls) ls)),
      is @ map skip_issue (filter is_skip (zip (p # ls) ls)))"
  by (induction ls arbitrary: p k "is")
     (auto simp: heading_step_def is_skip_def skip_issue_def)

lemma heading_fold0:
  "fold heading_step ls (0, 0, is) =
     (last ls, length (filter is_skip (zip ls (tl ls))),
      is @ map skip_issue (filter is_skip (zip ls (tl ls))))"
  if "\<forall>l\<in>set ls. 0 < l" "ls \<noteq> []"
proof (cases ls)
  case Nil
  then show ?thesis using that by simp
next
  case (Cons a list)
  have "heading_step a (0, 0, is) = (a, 0, is)"
    by (simp add: heading_step_def)
  then show ?thesis using Cons that by (simp add: heading_fold)
qed

lemma heading_level_range:
  "named heading_names h \<Longrightarrow> 1 \<le> heading_level h \<and> heading_level h \<le> 6"
  by (cases h) (auto simp: heading_names_def)

lemma heading_level_1:
  "named heading_names h \<Longrightarrow> heading_level h = 1 \<longleftrightarrow> named [''h1''] h"
  by (cases h) (auto simp: heading_names_def)

lemma named_h1: "named [''h1''] h \<Longrightarrow> named heading_names h"
  by (cases h) (auto simp: heading_names_def)

lemma h1_count_levels:
  "length (find_all [''h1''] soup) =
   length (filter (\<lambda>l. l = 1) (map heading_level (find_all heading_names soup)))"
proof -
  let ?D = "map fst (descendants soup)"
  have "filter (named [''h1'']) ?D = filter (named [''h1'']) (filter (named heading_names) ?D)"
    by (auto simp: named_h1 intro: filter_cong)
  also have "length \<dots> = length (filter (\<lambda>h. heading_level h = 1) (filter (named heading_names) ?D))"
    using heading_level_1 by (intro arg_cong [where f = length] filter_cong) auto
  finally show ?thesis
    by (simp add: find_all_filter filter_map comp_def)
qed

lemma levels_pos: "\<forall>l\<in>set (map heading_level (find_all heading_names soup)). 0 < l"
  using heading_level_range by (fastforce simp: find_all_filter)

lemma check_heading_structure_eq:
  "check_heading_structure soup =
     (let headings = find_all heading_names soup;
          levels = map heading_level headings;
          h1s = length (filter (\<lambda>l. l = 1) levels);
          skips = filter is_skip (zip levels (tl levels));
          h1Penalty = (if h1s = 0 then 5/10 else if h1s > 1 then 3/10 else 0);
          skipPenalty = min (5/10) (of_nat (length skips) * (1/10))
      in if headings = [] then (0, [''No headings found on page''])
         else (max 0 (1 - h1Penalty - skipPenalty), h1_issue h1s @ map skip_issue skips))"
proof (cases "find_all heading_names soup = []")
  case True
  then show ?thesis
    by (simp add: check_heading_structure_def heading_names_def [symmetric])
next
  case False
  let ?ls = "map heading_level (find_all heading_names soup)"
  from False have ne: "?ls \<noteq> []" by simp
  have f: "fold heading_step ?ls (0, 0, is) =
     (last ?ls, length (filter is_skip (zip ?ls (tl ?ls))),
      is @ map skip_issue (filter is_skip (zip ?ls (tl ?ls))))" for "is"
    using heading_fold0 [OF levels_pos ne] .
  show ?thesis
    using False
    unfolding check_heading_structure_def heading_names_def [symmetric] Let_def
      h1_count_levels f h1_issue_def
    by (auto simp: algebra_simps)
qed

text \<open>
  C5: without headings the heading checker returns 0.0 and the one issue that no
  heading was found. Otherwise the penalty is 0.5 for no \<^verbatim>\<open>h1\<close> and 0.3 for more than
  one; a skip is counted for each heading whose level exceeds the level of the heading
  before it by more than one (the first heading is never a skip); the skip penalty is
  \<open>min(0.5, skips * 0.1)\<close> and the score \<open>max(0, 1.0 - h1Penalty - skipPenalty)\<close>. The
  issues are the \<^verbatim>\<open>h1\<close> issue, if any, and one issue for each skip. Headings
  \<^verbatim>\<open>h1\<close>, \<^verbatim>\<open>h3\<close> score 0.9 with one skip issue.
\<close>

theorem C5_heading_structure:
  "check_heading_structure soup =
     (let headings = find_all heading_names soup;
          levels = map heading_level headings;
          h1s = length (filter (\<lambda>l. l = 1) levels);
          skips = filter is_skip (zip levels (tl levels));
          h1Penalty = (if h1s = 0 then 5/10 else if h1s > 1 then 3/10 else 0);
          skipPenalty = min (5/10) (of_nat (length skips) * (1/10))
      in if headings = [] then (0, [''No headings found on page''])
         else (max 0 (1 - h1Penalty - skipPenalty), h1_issue h1s @ map skip_issue skips))
   \<and> (map heading_level (find_all heading_names soup) = [1, 3] \<longrightarrow>
        check_heading_structure soup = (9/10, [''Heading level skip from h1 to h3'']))"
proof -
  have e: "check_heading_structure soup = (9/10, [''Heading level skip from h1 to h3''])"
    if "map heading_level (find_all heading_names soup) = [1, 3]"
  proof -
    have "find_all heading_names soup \<noteq> []" using that by auto
    then show ?thesis unfolding check_heading_structure_eq Let_def that
      by (simp add: is_skip_def skip_issue_def h1_issue_def str_nat.simps)
  qed
  show ?thesis using check_heading_structure_eq [of soup] e by blast
qed

theorem C5_heading_structure_witness:
  "map heading_level (find_all heading_names heading_example) = [1, 3] \<and>
   check_heading_structure heading_example = (9/10, [''Heading level skip from h1 to h3''])"
proof -
  have h: "map heading_level (find_all heading_names heading_example) = [1, 3]"
    by (simp add: heading_example_def heading_names_def find_all_def find_all_parents_def
          descendants_def)
  have e: "check_heading_structure heading_example =
      (9/10, [''Heading level skip from h1 to h3''])"
    by (rule mp [OF conjunct2 [OF C5_heading_structure [of heading_example]] h])
  show ?thesis using h e by (rule conjI)
qed

section \<open>Links\<close>

lemma links_fold:
  "fold links_step ls (p, is) =
     (p + length (filter link_miss ls), is @ map link_issue (filter link_miss ls))"
  by (induction ls arbitrary: p "is")
     (auto simp: links_step_def link_miss_def link_skipped_def link_issue_def link_text_def
        find_None_iff Let_def)

lemma check_descriptive_links_eq:
  "check_descriptive_links soup =
     (let links = find_all [''a''] soup;
          misses = filter link_miss links
      in if links = [] then (1, [])
         else (max 0 (min 1 (1 - of_nat (length misses) / of_nat (length links))),
               map link_issue misses))"
  by (simp add: check_descriptive_links_def links_fold Let_def ratio_clamp [symmetric])




section \<open>Forms\<close>

lemma find_label_for_iff:
  "(\<exists>y. find_label_for i soup = Some y) \<longleftrightarrow>
   (\<exists>l\<in>set (find_all [''label''] soup). get l ''for'' = Some i)"
proof -
  have "(\<exists>y. find_label_for i soup = Some y) \<longleftrightarrow>
        filter (\<lambda>d. get d ''for'' = Some i) (find_all [''label''] soup) \<noteq> []"
    by (simp add: find_label_for_def split: list.splits)
  then show ?thesis by (simp only: filter_empty_conv) blast
qed

lemma form_labels_fold:
  "fold (form_labels_step soup) cs (t, u, is) =
     (t + length (filter qualifying cs),
      u + length (filter (\<lambda>c. \<not> labeled soup c) (filter qualifying cs)),
      is @ map form_issue (filter (\<lambda>c. \<not> labeled soup c) (filter qualifying cs)))"
proof (induction cs arbitrary: t u "is")
  case Nil
  then show ?case by simp
next
  case (Cons c cs)
  obtain inp ps where c: "c = (inp, ps)" by (cases c)
  show ?case
  proof (cases "qualifying c")
    case False
    then have "form_labels_step soup c (t, u, is) = (t, u, is)"
      by (auto simp: c form_labels_step_def qualifying_def split: option.splits)
    then show ?thesis using False Cons.IH by simp
  next
    case True
    then have q: "\<not> (named [''input''] inp \<and>
           (case get inp ''type'' of None \<Rightarrow> False | Some ty \<Rightarrow> ty \<in> set excluded_types))"
      by (auto simp: c qualifying_def split: option.splits)
    define hl where "hl =
        (case get inp ''aria-label'' of
           None \<Rightarrow> (if filter (\<lambda>p. p = ''label'') ps \<noteq> [] then True
                    else (case get inp ''id'' of None \<Rightarrow> False
                          | Some i \<Rightarrow> find_label_for i soup \<noteq> None))
         | Some v \<Rightarrow> if strip v \<noteq> [] then True
                     else (if filter (\<lambda>p. p = ''label'') ps \<noteq> [] then True
                    else (case get inp ''id'' of None \<Rightarrow> False
                          | Some i \<Rightarrow> find_label_for i soup \<noteq> None)))"
    have l: "labeled soup (inp, ps) \<longleftrightarrow> hl"
      by (auto simp: hl_def labeled_def find_label_for_iff strip_Nil_iff list_all_iff
            list_ex_iff filter_empty_conv split: option.splits)
    have step: "form_labels_step soup (inp, ps) (t, u, is) =
        (if \<not> hl then (t + 1, u + 1, is @ [form_issue (inp, ps)]) else (t + 1, u, is))"
      using q by (simp add: form_labels_step_def Let_def hl_def form_issue_def split: option.splits)
    show ?thesis
      using True Cons.IH unfolding c l [symmetric] by (simp add: step l [symmetric])
  qed
qed

lemma check_form_labels_eq:
  "check_form_labels soup =
     (let controls = filter qualifying (find_all_parents control_names soup);
          unlabeled = filter (\<lambda>c. \<not> labeled soup c) controls
      in if controls = [] then (1, [])
         else (max 0 (min 1 (1 - of_nat (length unlabeled) / of_nat (length controls))),
               map form_issue unlabeled))"
proof (cases "filter qualifying (find_all_parents control_names soup) = []")
  case True
  then show ?thesis
    by (simp add: check_form_labels_def control_names_def [symmetric] form_labels_fold Let_def)
next
  case False
  then have "find_all_parents control_names soup \<noteq> []" by auto
  then show ?thesis using False
    by (simp add: check_form_labels_def control_names_def [symmetric] form_labels_fold Let_def
          ratio_clamp [symmetric])
qed



section \<open>Structure\<close>

lemma check_semantic_structure_eq:
  "check_semantic_structure soup =
     (let landmarkCount = length (find_all landmark_names soup);
          noMain = (find_all [''main''] soup = [])
      in (max 0 (min 1 (of_nat landmarkCount / 3) - (if noMain then 3/10 else 0)),
          (if landmarkCount = 0 then [''No semantic HTML elements found''] else [])
          @ (if noMain then [''No <main> element found''] else [])))"
  by (simp add: check_semantic_structure_def landmark_names_def [symmetric] Let_def find_None_iff)

text \<open>
  C8: the structure checker counts the tags among header, footer, nav, main, article,
  section and aside; the score is \<open>min(1.0, landmarkCount / 3)\<close>, less 0.3 when the
  document has no \<^verbatim>\<open>main\<close> tag, and not below 0. It reports that no semantic element
  was found when the count is 0, and that no main element was found when there is
  none. A document without any landmark scores 0 with both issues.
\<close>

theorem C8_semantic_structure:
  "check_semantic_structure soup =
     (let landmarkCount = length (find_all landmark_names soup);
          noMain = (find_all [''main''] soup = [])
      in (max 0 (min 1 (of_nat landmarkCount / 3) - (if noMain then 3/10 else 0)),
          (if landmarkCount = 0 then [''No semantic HTML elements found''] else [])
          @ (if noMain then [''No <main> element found''] else [])))
   \<and> (length (find_all landmark_names soup) = 0 \<longrightarrow>
        check_semantic_structure soup =
          (0, [''No semantic HTML elements found'', ''No <main> element found'']))"
proof -
  have e: "check_semantic_structure soup =
          (0, [''No semantic HTML elements found'', ''No <main> element found''])"
    if "length (find_all landmark_names soup) = 0"
  proof -
    from that have l: "find_all landmark_names soup = []" by simp
    have "find_all [''main''] soup = []"
      by (rule find_all_mono [OF _ l]) (simp add: landmark_names_def)
    then show ?thesis unfolding check_semantic_structure_eq Let_def l by simp
  qed
  show ?thesis using check_semantic_structure_eq [of soup] e by blast
qed

theorem C8_semantic_structure_witness:
  "length (find_all landmark_names structure_example) = 0 \<and>
   check_semantic_structure structure_example =
     (0, [''No semantic HTML elements found'', ''No <main> element found''])"
proof -
  have h: "length (find_all landmark_names structure_example) = 0"
    by (simp add: structure_example_def landmark_names_def find_all_def find_all_parents_def
          descendants_def)
  have e: "check_semantic_structure structure_example =
      (0, [''No semantic HTML elements found'', ''No <main> element found''])"
    by (rule mp [OF conjunct2 [OF C8_semantic_structure [of structure_example]] h])
  show ?thesis using h e by (rule conjI)
qed

section \<open>Contrast\<close>

lemma color_contrast_fold:
  "fold color_contrast_step es (p, is) =
     (p + length (concat (map contrast_hits es)), is @ concat (map contrast_hits es))"
  by (induction es arbitrary: p "is") (auto simp: color_contrast_step_def contrast_hits_def Let_def)

lemma check_color_contrast_eq:
  "check_color_contrast soup =
     (let hits = concat (map contrast_hits (select_style_color soup))
      in (1 - min (1/2) (of_nat (length hits) * (1/10)),
          if hits = [] then [''Limited contrast check performed (inline styles only)'']
          else hits))"
  by (simp add: check_color_contrast_def color_contrast_fold Let_def)

subsection \<open>The matcher against the language of a pattern\<close>

lemma nullable_iff: "nullable r \<longleftrightarrow> [] \<in> lang r"
  by (induction r) (auto intro: star.intros)

lemma star_Cons_iff:
  "c # w \<in> star A \<longleftrightarrow> (\<exists>u v. w = u @ v \<and> c # u \<in> A \<and> v \<in> star A)"
proof
  assume "c # w \<in> star A"
  then show "\<exists>u v. w = u @ v \<and> c # u \<in> A \<and> v \<in> star A"
  proof (induction "c # w" arbitrary: w rule: star.induct)
    case (star_App u v)
    then show ?case
      by (cases u) auto
  qed
next
  assume "\<exists>u v. w = u @ v \<and> c # u \<in> A \<and> v \<in> star A"
  then obtain u v where "w = u @ v" "c # u \<in> A" "v \<in> star A" by blast
  then show "c # w \<in> star A"
    using star_App [of "c # u" A v] by simp
qed

lemma deriv_lang: "lang (deriv c r) = {w. c # w \<in> lang r}"
proof (induction r)
  case (Seq r s)
  then show ?case
    by (auto simp: nullable_iff Cons_eq_append_conv)
next
  case (Star r)
  then show ?case
    by (auto simp: star_Cons_iff)
qed auto

lemma re_match_iff: "re_match r s \<longleftrightarrow> (\<exists>u v. s = u @ v \<and> u \<in> lang r)"
proof (induction s arbitrary: r)
  case Nil
  then show ?case by (simp add: nullable_iff)
next
  case (Cons c cs)
  show ?case
    by (auto simp: Cons nullable_iff deriv_lang Cons_eq_append_conv)
qed

lemma re_search_iff: "re_search r s \<longleftrightarrow> (\<exists>p u v. s = p @ u @ v \<and> u \<in> lang r)"
proof (induction s)
  case Nil
  then show ?case by (simp add: re_match_iff)
next
  case (Cons c cs)
  have "(\<exists>p u v. c # cs = p @ u @ v \<and> u \<in> lang r) \<longleftrightarrow>
        (\<exists>u v. c # cs = u @ v \<and> u \<in> lang r) \<or> (\<exists>p u v. cs = p @ u @ v \<and> u \<in> lang r)"
    by (auto simp: Cons_eq_append_conv) (metis append_Nil)+
  then show ?case
    by (simp add: Cons re_match_iff del: re_match.simps)
qed


lemma lang_Lit: "lang (Lit s) = {s}"
  by (induction s) auto

lemma star_spaces: "star {[c] | c. isspace c} = {ws. \<forall>c\<in>set ws. isspace c}"
proof (rule set_eqI, rule iffI)
  fix ws
  assume "ws \<in> star {[c] | c. isspace c}"
  then show "ws \<in> {ws. \<forall>c\<in>set ws. isspace c}"
    by (induction rule: star.induct) auto
next
  fix ws
  assume "ws \<in> {ws. \<forall>c\<in>set ws. isspace c}"
  then have "\<forall>c\<in>set ws. isspace c" by simp
  then show "ws \<in> star {[c] | c. isspace c}"
  proof (induction ws)
    case Nil
    then show ?case by (simp add: star_Nil)
  next
    case (Cons c cs)
    then have "[c] \<in> {[c] | c. isspace c}" "cs \<in> star {[c] | c. isspace c}" by auto
    then have "[c] @ cs \<in> star {[c] | c. isspace c}" by (rule star_App)
    then show ?case by simp
  qed
qed

lemma color_values_iff:
  "v \<in> set (color_values s) \<longleftrightarrow> (\<exists>p r. s = p @ ''color:'' @ r \<and> v = dropWhile isspace r)"
proof (induction s)
  case Nil
  then show ?case by simp
next
  case (Cons c cs)
  have a: "prefix ''color:'' (c # cs) \<and> v = dropWhile isspace (drop 6 (c # cs)) \<longleftrightarrow>
        (\<exists>r. c # cs = ''color:'' @ r \<and> v = dropWhile isspace r)"
    by (auto simp: prefix_def)
  have b: "(\<exists>p r. c # cs = p @ ''color:'' @ r \<and> v = dropWhile isspace r) \<longleftrightarrow>
        (\<exists>r. c # cs = ''color:'' @ r \<and> v = dropWhile isspace r)
        \<or> (\<exists>p r. cs = p @ ''color:'' @ r \<and> v = dropWhile isspace r)"
  proof
    assume "\<exists>p r. c # cs = p @ ''color:'' @ r \<and> v = dropWhile isspace r"
    then obtain p r where pr: "c # cs = p @ ''color:'' @ r" "v = dropWhile isspace r" by blast
    show "(\<exists>r. c # cs = ''color:'' @ r \<and> v = dropWhile isspace r)
        \<or> (\<exists>p r. cs = p @ ''color:'' @ r \<and> v = dropWhile isspace r)"
    proof (cases p)
      case Nil
      then show ?thesis using pr by auto
    next
      case (Cons a p')
      then have "cs = p' @ ''color:'' @ r" using pr(1) by simp
      then show ?thesis using pr(2) by blast
    qed
  next
    assume "(\<exists>r. c # cs = ''color:'' @ r \<and> v = dropWhile isspace r)
        \<or> (\<exists>p r. cs = p @ ''color:'' @ r \<and> v = dropWhile isspace r)"
    then show "\<exists>p r. c # cs = p @ ''color:'' @ r \<and> v = dropWhile isspace r"
    proof
      assume "\<exists>r. c # cs = ''color:'' @ r \<and> v = dropWhile isspace r"
      then show ?thesis by (metis append_Nil)
    next
      assume "\<exists>p r. cs = p @ ''color:'' @ r \<and> v = dropWhile isspace r"
      then obtain p r where "cs = p @ ''color:'' @ r" "v = dropWhile isspace r" by blast
      then have "c # cs = (c # p) @ ''color:'' @ r" by simp
      then show ?thesis using \<open>v = dropWhile isspace r\<close> by blast
    qed
  qed
  have "v \<in> set (color_values (c # cs)) \<longleftrightarrow>
        (prefix ''color:'' (c # cs) \<and> v = dropWhile isspace (drop 6 (c # cs)))
        \<or> v \<in> set (color_values cs)"
    by auto
  then show ?case unfolding a b Cons.IH .
qed

lemma after_color_iff:
  assumes Q: "\<And>r. Q r \<Longrightarrow> r \<noteq> [] \<and> \<not> isspace (hd r)"
  shows "(\<exists>p ws r. s = p @ ''color:'' @ ws @ r \<and> (\<forall>c\<in>set ws. isspace c) \<and> Q r) \<longleftrightarrow>
         (\<exists>v\<in>set (color_values s). Q v)"
proof
  assume "\<exists>p ws r. s = p @ ''color:'' @ ws @ r \<and> (\<forall>c\<in>set ws. isspace c) \<and> Q r"
  then obtain p ws r where h: "s = p @ ''color:'' @ ws @ r" "\<forall>c\<in>set ws. isspace c" "Q r"
    by blast
  have "dropWhile isspace (ws @ r) = dropWhile isspace r"
    using h(2) by (simp add: dropWhile_append1 dropWhile_append)
  also have "\<dots> = r" using Q [OF h(3)] by (cases r) auto
  finally have "r \<in> set (color_values s)"
    unfolding color_values_iff using h(1) by metis
  then show "\<exists>v\<in>set (color_values s). Q v" using h(3) by blast
next
  assume "\<exists>v\<in>set (color_values s). Q v"
  then obtain v where "v \<in> set (color_values s)" "Q v" by blast
  then obtain p r where h: "s = p @ ''color:'' @ r" "v = dropWhile isspace r"
    unfolding color_values_iff by blast
  have "r = takeWhile isspace r @ v" using h(2) by simp
  then have "s = p @ ''color:'' @ takeWhile isspace r @ v" using h(1) by simp
  moreover have "\<forall>c\<in>set (takeWhile isspace r). isspace c"
    by (auto dest: set_takeWhileD)
  ultimately show "\<exists>p ws r. s = p @ ''color:'' @ ws @ r \<and> (\<forall>c\<in>set ws. isspace c) \<and> Q r"
    using \<open>Q v\<close> by blast
qed


lemma hex3_iff:
  "hex3 cls r \<longleftrightarrow>
   (\<exists>x y z t. r = CHR ''#'' # x # y # z # t \<and> x \<in> set cls \<and> y \<in> set cls \<and> z \<in> set cls)"
  by (induction cls r rule: hex3.induct) auto

lemma rgb2_iff:
  "rgb2 pre cls r \<longleftrightarrow> (\<exists>d e t. r = pre @ d # e # t \<and> d \<in> set cls \<and> isdigit e)"
  by (auto simp: rgb2_def prefix_def split: list.splits)

lemma lang_Seq_Chr: "w \<in> lang (Seq (Chr c) r) \<longleftrightarrow> (\<exists>t. w = c # t \<and> t \<in> lang r)"
  by auto

lemma lang_Seq_Cls:
  "w \<in> lang (Seq (Cls cs) r) \<longleftrightarrow> (\<exists>c t. w = c # t \<and> c \<in> set cs \<and> t \<in> lang r)"
proof
  assume "w \<in> lang (Seq (Cls cs) r)"
  then show "\<exists>c t. w = c # t \<and> c \<in> set cs \<and> t \<in> lang r" by auto
next
  assume "\<exists>c t. w = c # t \<and> c \<in> set cs \<and> t \<in> lang r"
  then obtain c t where "w = [c] @ t" "c \<in> set cs" "t \<in> lang r" by auto
  then show "w \<in> lang (Seq (Cls cs) r)" by (simp del: append.simps) blast
qed

lemma lang_Seq_Lit: "w \<in> lang (Seq (Lit s) r) \<longleftrightarrow> (\<exists>t. w = s @ t \<and> t \<in> lang r)"
  by (auto simp: lang_Lit)

lemma lang_Seq_Spaces:
  "w \<in> lang (Seq (Star Space) r) \<longleftrightarrow>
   (\<exists>ws t. w = ws @ t \<and> (\<forall>c\<in>set ws. isspace c) \<and> t \<in> lang r)"
  by (auto simp: star_spaces)

lemma lang_Cls: "w \<in> lang (Cls cs) \<longleftrightarrow> (\<exists>c. w = [c] \<and> c \<in> set cs)"
  by auto

lemma lang_Digit: "w \<in> lang Digit \<longleftrightarrow> (\<exists>c. w = [c] \<and> isdigit c)"
  by auto

lemma lang_hex:
  "h \<in> lang (Seq (Chr CHR ''#'') (Seq (Cls cls) (Seq (Cls cls) (Cls cls)))) \<longleftrightarrow>
   (\<exists>x y z. h = [CHR ''#'', x, y, z] \<and> x \<in> set cls \<and> y \<in> set cls \<and> z \<in> set cls)"
  unfolding lang_Seq_Chr lang_Seq_Cls lang_Cls by auto

lemma lang_rgb:
  "h \<in> lang (Seq (Lit pre) (Seq (Cls cls) Digit)) \<longleftrightarrow>
   (\<exists>d e. h = pre @ [d, e] \<and> d \<in> set cls \<and> isdigit e)"
  unfolding lang_Seq_Lit lang_Seq_Cls lang_Digit by auto

lemma lang_color:
  "u \<in> lang (Alt (Seq (Lit ''color:'') (Seq (Star Space) a))
                  (Seq (Lit ''color:'') (Seq (Star Space) b))) \<longleftrightarrow>
   (\<exists>ws h. u = ''color:'' @ ws @ h \<and> (\<forall>c\<in>set ws. isspace c) \<and> (h \<in> lang a \<or> h \<in> lang b))"
  unfolding lang.simps(8) lang_Seq_Lit lang_Seq_Spaces Un_iff by blast

lemma search_color_pattern:
  assumes pre: "pre \<noteq> [] \<and> \<not> isspace (hd pre)"
  shows "re_search
      (Alt (Seq (Lit ''color:'') (Seq (Star Space)
              (Seq (Chr CHR ''#'') (Seq (Cls hc) (Seq (Cls hc) (Cls hc))))))
           (Seq (Lit ''color:'') (Seq (Star Space)
              (Seq (Lit pre) (Seq (Cls dc) Digit))))) s
    \<longleftrightarrow> list_ex (\<lambda>v. hex3 hc v \<or> rgb2 pre dc v) (color_values s)"
proof -
  let ?a = "Seq (Chr CHR ''#'') (Seq (Cls hc) (Seq (Cls hc) (Cls hc)))"
  let ?b = "Seq (Lit pre) (Seq (Cls dc) Digit)"
  let ?r = "Alt (Seq (Lit ''color:'') (Seq (Star Space) ?a))
                (Seq (Lit ''color:'') (Seq (Star Space) ?b))"
  let ?Q = "\<lambda>v. hex3 hc v \<or> rgb2 pre dc v"
  have Qa: "hex3 hc t \<longleftrightarrow> (\<exists>h v. t = h @ v \<and> h \<in> lang ?a)" for t
  proof
    assume "hex3 hc t"
    then obtain x y z ta where
      "t = [CHR ''#'', x, y, z] @ ta" "x \<in> set hc" "y \<in> set hc" "z \<in> set hc"
      unfolding hex3_iff by auto
    then show "\<exists>h v. t = h @ v \<and> h \<in> lang ?a"
      unfolding lang_hex by blast
  next
    assume "\<exists>h v. t = h @ v \<and> h \<in> lang ?a"
    then obtain x y z v where
      "t = [CHR ''#'', x, y, z] @ v" "x \<in> set hc" "y \<in> set hc" "z \<in> set hc"
      unfolding lang_hex by blast
    then show "hex3 hc t"
      unfolding hex3_iff by auto
  qed
  have Qb: "rgb2 pre dc t \<longleftrightarrow> (\<exists>h v. t = h @ v \<and> h \<in> lang ?b)" for t
  proof
    assume "rgb2 pre dc t"
    then obtain d e ta where "t = (pre @ [d, e]) @ ta" "d \<in> set dc" "isdigit e"
      unfolding rgb2_iff by auto
    then show "\<exists>h v. t = h @ v \<and> h \<in> lang ?b"
      unfolding lang_rgb by blast
  next
    assume "\<exists>h v. t = h @ v \<and> h \<in> lang ?b"
    then obtain d e v where "t = (pre @ [d, e]) @ v" "d \<in> set dc" "isdigit e"
      unfolding lang_rgb by blast
    then show "rgb2 pre dc t"
      unfolding rgb2_iff by auto
  qed
  have Q: "?Q t \<longleftrightarrow> (\<exists>h v. t = h @ v \<and> (h \<in> lang ?a \<or> h \<in> lang ?b))" for t
    unfolding Qa Qb by blast
  have N: "?Q t \<Longrightarrow> t \<noteq> [] \<and> \<not> isspace (hd t)" for t
    using pre by (auto simp: hex3_iff rgb2_iff isspace_def)
  have "re_search ?r s \<longleftrightarrow>
      (\<exists>p ws t. s = p @ ''color:'' @ ws @ t \<and> (\<forall>c\<in>set ws. isspace c) \<and> ?Q t)"
  proof
    assume "re_search ?r s"
    then obtain p u v where "s = p @ u @ v" "u \<in> lang ?r"
      unfolding re_search_iff by blast
    then obtain ws h where x:
      "s = p @ (''color:'' @ ws @ h) @ v" "\<forall>c\<in>set ws. isspace c" "h \<in> lang ?a \<or> h \<in> lang ?b"
      unfolding lang_color by blast
    have "?Q (h @ v)"
      unfolding Q using x(3) by blast
    moreover have "s = p @ ''color:'' @ ws @ (h @ v)"
      using x(1) by simp
    ultimately show "\<exists>p ws t. s = p @ ''color:'' @ ws @ t \<and> (\<forall>c\<in>set ws. isspace c) \<and> ?Q t"
      using x(2) by blast
  next
    assume "\<exists>p ws t. s = p @ ''color:'' @ ws @ t \<and> (\<forall>c\<in>set ws. isspace c) \<and> ?Q t"
    then obtain p ws t where h: "s = p @ ''color:'' @ ws @ t" "\<forall>c\<in>set ws. isspace c" "?Q t"
      by blast
    then obtain hh v where t: "t = hh @ v" "hh \<in> lang ?a \<or> hh \<in> lang ?b"
      unfolding Q by blast
    have "''color:'' @ ws @ hh \<in> lang ?r" unfolding lang_color using h(2) t(2) by blast
    moreover have "s = p @ (''color:'' @ ws @ hh) @ v" using h(1) t(1) by simp
    ultimately show "re_search ?r s" unfolding re_search_iff by blast
  qed
  also have "\<dots> \<longleftrightarrow> (\<exists>v\<in>set (color_values s). ?Q v)"
    by (rule after_color_iff [of ?Q, OF N])
  finally show ?thesis
    by (simp add: list_ex_iff)
qed

lemma light_search_iff: "re_search light_pattern s \<longleftrightarrow> light_hit s"
  unfolding light_pattern_def light_hit_def
  by (rule search_color_pattern) (simp add: isspace_def)

lemma dark_search_iff: "re_search dark_pattern s \<longleftrightarrow> dark_hit s"
  unfolding dark_pattern_def dark_hit_def
  by (rule search_color_pattern) (simp add: isspace_def)

subsection \<open>The contrast checker\<close>

lemma dark_hit_two_digits_dark_hit: "dark_hit_two_digits style \<Longrightarrow> dark_hit style"
  by (auto simp: dark_hit_two_digits_def dark_hit_def list_ex_iff)

lemma white_rgb_hits:
  "contrast_hits (Tag ''p'' [(''style'', ''color: rgb(255, 255, 255)'')] []) =
     [''Potential low contrast light text'', ''Potential low contrast dark text'']"
  by code_simp

text \<open>
  C9, as amended: the contrast checker looks at the tags whose \<^verbatim>\<open>style\<close> attribute
  contains \<^verbatim>\<open>color\<close>. For each it counts one light issue exactly when, after some
  \<^verbatim>\<open>color:\<close> and optional white space, the style goes on with \<^verbatim>\<open>#\<close> and three
  characters that are each \<^verbatim>\<open>e\<close> or \<^verbatim>\<open>f\<close>, or with \<^verbatim>\<open>rgb(2\<close>, a digit from 3 to 5
  and one more digit. It counts one dark issue when, after some \<^verbatim>\<open>color:\<close> and optional
  white space, the style goes on with \<^verbatim>\<open>#\<close> and three characters that are each
  \<^verbatim>\<open>0\<close>, \<^verbatim>\<open>1\<close> or \<^verbatim>\<open>2\<close>, or with \<^verbatim>\<open>rgb(\<close>, a digit from 0 to 2, one more digit and no
  third digit; and it counts no dark issue unless the style goes on with such a
  \<^verbatim>\<open>#\<close> value or with \<^verbatim>\<open>rgb(\<close>, a digit from 0 to 2 and one more digit. An element can
  count for both. The score is \<open>1.0 - min(0.5, matchCount * 0.1)\<close>, and the issues are
  the counted ones, or the one informational string when there is none.
\<close>

theorem C9_color_contrast:
  "check_color_contrast soup =
     (let hits = concat (map contrast_hits (select_style_color soup))
      in (1 - min (5/10) (of_nat (length hits) * (1/10)),
          if hits = [] then [''Limited contrast check performed (inline styles only)'']
          else hits))
   \<and> count_list (contrast_hits element) ''Potential low contrast light text''
       = (if light_hit (get_or element ''style'' '''') then 1 else 0)
   \<and> (dark_hit_two_digits (get_or element ''style'' '''') \<longrightarrow>
        count_list (contrast_hits element) ''Potential low contrast dark text'' = 1)
   \<and> (\<not> dark_hit (get_or element ''style'' '''') \<longrightarrow>
        count_list (contrast_hits element) ''Potential low contrast dark text'' = 0)
   \<and> length (contrast_hits element) \<le> 2"
proof -
  have a: "check_color_contrast soup =
     (let hits = concat (map contrast_hits (select_style_color soup))
      in (1 - min (5/10) (of_nat (length hits) * (1/10)),
          if hits = [] then [''Limited contrast check performed (inline styles only)'']
          else hits))"
    by (simp add: check_color_contrast_eq)
  have l: "count_list (contrast_hits element) ''Potential low contrast light text''
       = (if light_hit (get_or element ''style'' '''') then 1 else 0)"
    by (simp add: contrast_hits_def light_search_iff)
  have d1: "count_list (contrast_hits element) ''Potential low contrast dark text'' = 1"
    if "dark_hit_two_digits (get_or element ''style'' '''')"
    using dark_hit_two_digits_dark_hit [OF that]
    by (simp add: contrast_hits_def dark_search_iff)
  have d0: "count_list (contrast_hits element) ''Potential low contrast dark text'' = 0"
    if "\<not> dark_hit (get_or element ''style'' '''')"
    using that by (simp add: contrast_hits_def dark_search_iff)
  have n: "length (contrast_hits element) \<le> 2"
    by (simp add: contrast_hits_def)
  show ?thesis
    using a l d1 d0 n by blast
qed

theorem C9_color_contrast_witness:
  "dark_hit_two_digits ''color: rgb(20, 20, 20)''
   \<and> count_list (contrast_hits (Tag ''p'' [(''style'', ''color: rgb(20, 20, 20)'')] []))
        ''Potential low contrast dark text'' = 1
   \<and> \<not> dark_hit ''color: #e0e0e0''
   \<and> count_list (contrast_hits (Tag ''p'' [(''style'', ''color: #e0e0e0'')] []))
        ''Potential low contrast dark text'' = 0
   \<and> light_hit ''color: #eee; background-color: #000''
   \<and> dark_hit_two_digits ''color: #eee; background-color: #000''
   \<and> length (select_style_color contrast_example) = 4
   \<and> check_color_contrast contrast_example =
       (6/10, [''Potential low contrast light text'', ''Potential low contrast dark text'',
               ''Potential low contrast light text'', ''Potential low contrast dark text''])"
proof -
  have h1: "dark_hit_two_digits ''color: rgb(20, 20, 20)''"
    by code_simp
  have h2: "\<not> dark_hit ''color: #e0e0e0''"
    by code_simp
  have h3: "light_hit ''color: #eee; background-color: #000''"
    by code_simp
  have h4: "dark_hit_two_digits ''color: #eee; background-color: #000''"
    by code_simp
  have g1: "get_or (Tag ''p'' [(''style'', ''color: rgb(20, 20, 20)'')] []) ''style'' ''''
      = ''color: rgb(20, 20, 20)''"
    by (simp add: get_or_def)
  have g2: "get_or (Tag ''p'' [(''style'', ''color: #e0e0e0'')] []) ''style'' ''''
      = ''color: #e0e0e0''"
    by (simp add: get_or_def)
  have c1: "count_list (contrast_hits (Tag ''p'' [(''style'', ''color: rgb(20, 20, 20)'')] []))
        ''Potential low contrast dark text'' = 1"
    using C9_color_contrast [of contrast_example
        "Tag ''p'' [(''style'', ''color: rgb(20, 20, 20)'')] []"] h1
    unfolding g1 by blast
  have c2: "count_list (contrast_hits (Tag ''p'' [(''style'', ''color: #e0e0e0'')] []))
        ''Potential low contrast dark text'' = 0"
    using C9_color_contrast [of contrast_example
        "Tag ''p'' [(''style'', ''color: #e0e0e0'')] []"] h2
    unfolding g2 by blast
  have s: "length (select_style_color contrast_example) = 4"
    by code_simp
  have hits: "concat (map contrast_hits (select_style_color contrast_example)) =
      [''Potential low contrast light text'', ''Potential low contrast dark text'',
       ''Potential low contrast light text'', ''Potential low contrast dark text'']"
    by code_simp
  have "check_color_contrast contrast_example =
     (let hits = concat (map contrast_hits (select_style_color contrast_example))
      in (1 - min (5/10) (of_nat (length hits) * (1/10)),
          if hits = [] then [''Limited contrast check performed (inline styles only)'']
          else hits))"
    by (rule conjunct1 [OF C9_color_contrast [of contrast_example
          "Tag ''p'' [(''style'', ''color: #fff'')] []"]])
  then have r: "check_color_contrast contrast_example =
       (6/10, [''Potential low contrast light text'', ''Potential low contrast dark text'',
               ''Potential low contrast light text'', ''Potential low contrast dark text''])"
    unfolding hits Let_def by simp
  show ?thesis
    by (intro conjI h1 c1 h2 c2 h3 h4 s r)
qed

text \<open>
  C9 as stated fails: \<^verbatim>\<open>#e0e0e0\<close> and \<^verbatim>\<open>#FFFFFF\<close> are hex values whose three channels
  are all at least \<open>0xE0\<close>, and elements with these colours get no light issue.
\<close>

theorem C9_color_contrast_counterexample:
  "every_channel_light ''#e0e0e0''
   \<and> every_channel_light ''#FFFFFF''
   \<and> select_style_color pale_example =
       [Tag ''p'' [(''style'', ''color: #e0e0e0'')] [NavigableString ''pale''],
        Tag ''p'' [(''style'', ''color: #FFFFFF'')] [NavigableString ''white'']]
   \<and> check_color_contrast pale_example =
       (1, [''Limited contrast check performed (inline styles only)''])"
proof -
  have a: "every_channel_light ''#e0e0e0''"
    by code_simp
  have b: "every_channel_light ''#FFFFFF''"
    by code_simp
  have c: "select_style_color pale_example =
       [Tag ''p'' [(''style'', ''color: #e0e0e0'')] [NavigableString ''pale''],
        Tag ''p'' [(''style'', ''color: #FFFFFF'')] [NavigableString ''white'']]"
    by code_simp
  have d: "check_color_contrast pale_example =
       (1, [''Limited contrast check performed (inline styles only)''])"
    by code_simp
  show ?thesis
    by (intro conjI a b c d)
qed

section \<open>The weighted total\<close>

lemma score_bounds:
  "0 \<le> fst (check_alt_text soup) \<and> fst (check_alt_text soup) \<le> 1"
  "0 \<le> fst (check_heading_structure soup) \<and> fst (check_heading_structure soup) \<le> 1"
  "0 \<le> fst (check_descriptive_links soup) \<and> fst (check_descriptive_links soup) \<le> 1"
  "0 \<le> fst (check_form_labels soup) \<and> fst (check_form_labels soup) \<le> 1"
  "0 \<le> fst (check_semantic_structure soup) \<and> fst (check_semantic_structure soup) \<le> 1"
  "0 \<le> fst (check_color_contrast soup) \<and> fst (check_color_contrast soup) \<le> 1"
proof -
  show "0 \<le> fst (check_alt_text soup) \<and> fst (check_alt_text soup) \<le> 1"
    by (simp add: check_alt_text_eq Let_def)
  show "0 \<le> fst (check_heading_structure soup) \<and> fst (check_heading_structure soup) \<le> 1"
    by (simp add: check_heading_structure_eq Let_def min_def)
  show "0 \<le> fst (check_descriptive_links soup) \<and> fst (check_descriptive_links soup) \<le> 1"
    by (simp add: check_descriptive_links_eq Let_def)
  show "0 \<le> fst (check_form_labels soup) \<and> fst (check_form_labels soup) \<le> 1"
    by (simp add: check_form_labels_eq Let_def)
  show "0 \<le> fst (check_semantic_structure soup) \<and> fst (check_semantic_structure soup) \<le> 1"
    by (simp add: check_semantic_structure_eq Let_def min_def)
  show "0 \<le> fst (check_color_contrast soup) \<and> fst (check_color_contrast soup) \<le> 1"
    by (simp add: check_color_contrast_eq Let_def min_def)
qed

lemma weight_fold:
  "fold weight_step cats (s, w) =
     (s + sum_list (map (\<lambda>(category, details). fst details * weight_of category) cats),
      w + sum_list (map (\<lambda>(category, details). weight_of category) cats))"
  by (induction cats arbitrary: s w)
     (auto simp: weight_step_def weight_of_def split: option.splits)


lemma weight_sum_six:
  "sum_list (map (\<lambda>(category, details). weight_of category) (six_results soup)) = 90/100"
  by (simp add: six_results_def weight_of_def category_weights_def)

lemma weighted_average_six:
  "weighted_average (six_results soup) =
     (fst (check_alt_text soup) * (15/100) + fst (check_heading_structure soup) * (15/100)
      + fst (check_descriptive_links soup) * (10/100) + fst (check_form_labels soup) * (15/100)
      + fst (check_semantic_structure soup) * (20/100) + fst (check_color_contrast soup) * (15/100))
     / (90/100)"
  by (simp add: weighted_average_def six_results_def weight_of_def category_weights_def)

lemma average_bounds:
  fixes a b c d e f :: rat
  assumes "0 \<le> a \<and> a \<le> 1" "0 \<le> b \<and> b \<le> 1" "0 \<le> c \<and> c \<le> 1"
          "0 \<le> d \<and> d \<le> 1" "0 \<le> e \<and> e \<le> 1" "0 \<le> f \<and> f \<le> 1"
  shows "0 \<le> (a * (15/100) + b * (15/100) + c * (10/100) + d * (15/100)
               + e * (20/100) + f * (15/100)) / (90/100) * 100
       \<and> (a * (15/100) + b * (15/100) + c * (10/100) + d * (15/100)
               + e * (20/100) + f * (15/100)) / (90/100) * 100 \<le> 100"
  using assms by simp

lemma run_success:
  assumes "fetch_url web u = Some soup"
  shows "run_accessibility_check web u =
     \<lparr>url = u, total_score = py_round (weighted_average (six_results soup) * 100),
      categories = six_results soup,
      issues = concat (map (\<lambda>(category, details). snd details) (six_results soup))\<rparr>"
proof -
  have f: "fold weight_step (six_results soup) (0, 0) =
      (sum_list (map (\<lambda>(category, details). fst details * weight_of category) (six_results soup)),
       90/100)"
    by (simp add: weight_fold weight_sum_six)
  have c: "concat (map (\<lambda>(category, details). snd details) (six_results soup)) =
      snd (check_alt_text soup) @ snd (check_heading_structure soup)
      @ snd (check_descriptive_links soup) @ snd (check_form_labels soup)
      @ snd (check_semantic_structure soup) @ snd (check_color_contrast soup)"
    by (simp add: six_results_def)
  show ?thesis
    unfolding run_accessibility_check_def assms option.case Let_def
      six_results_def [symmetric] f prod.case c weighted_average_def weight_sum_six
    by simp
qed

lemma total_score_bounds:
  assumes "fetch_url web u = Some soup"
  shows "0 \<le> total_score (run_accessibility_check web u)
       \<and> total_score (run_accessibility_check web u) \<le> 100"
proof -
  have "0 \<le> weighted_average (six_results soup) * 100
       \<and> weighted_average (six_results soup) * 100 \<le> of_int 100"
    unfolding weighted_average_six
    using average_bounds [OF score_bounds [of soup]] by simp
  then show ?thesis
    using py_round_bounds [of "weighted_average (six_results soup) * 100" 100]
    by (simp add: run_success [OF assms])
qed

lemma perfect_results:
  "six_results (Tag ''[document]'' [] perfect_page) =
     [(''images'', (1, [])), (''headings'', (1, [])), (''links'', (1, [])),
      (''forms'', (1, [])), (''structure'', (1, [])),
      (''contrast'', (1, [''Limited contrast check performed (inline styles only)'']))]"
  by code_simp

lemma fetch_online: "fetch_url online u = Some (Tag ''[document]'' [] perfect_page)"
  by (simp add: fetch_url_def online_def)



text \<open>
  C3: each of the six checkers returns a score in \<open>[0, 1]\<close>, and the report of a
  fetched document has a \<^verbatim>\<open>total_score\<close>, an integer, in \<open>[0, 100]\<close>.
\<close>

theorem C3_score_ranges:
  "(0 \<le> fst (check_alt_text soup) \<and> fst (check_alt_text soup) \<le> 1)
   \<and> (0 \<le> fst (check_heading_structure soup) \<and> fst (check_heading_structure soup) \<le> 1)
   \<and> (0 \<le> fst (check_descriptive_links soup) \<and> fst (check_descriptive_links soup) \<le> 1)
   \<and> (0 \<le> fst (check_form_labels soup) \<and> fst (check_form_labels soup) \<le> 1)
   \<and> (0 \<le> fst (check_semantic_structure soup) \<and> fst (check_semantic_structure soup) \<le> 1)
   \<and> (0 \<le> fst (check_color_contrast soup) \<and> fst (check_color_contrast soup) \<le> 1)
   \<and> (fetch_url web u = Some soup \<longrightarrow>
        0 \<le> total_score (run_accessibility_check web u)
        \<and> total_score (run_accessibility_check web u) \<le> 100
        \<and> list_all (\<lambda>(category, details). 0 \<le> fst details \<and> fst details \<le> 1)
             (categories (run_accessibility_check web u)))"
proof -
  have r: "list_all (\<lambda>(category, details). 0 \<le> fst details \<and> fst details \<le> 1)
             (categories (run_accessibility_check web u))"
    if "fetch_url web u = Some soup"
    using score_bounds [of soup] by (simp add: run_success [OF that] six_results_def)
  show ?thesis
    using score_bounds [of soup] total_score_bounds [of web u soup] r by blast
qed

theorem C3_score_ranges_witness:
  "fetch_url mixed_web ''https://example.org'' = Some alt_example
   \<and> total_score (run_accessibility_check mixed_web ''https://example.org'') = 55
   \<and> map (\<lambda>(category, details). fst details)
       (categories (run_accessibility_check mixed_web ''https://example.org''))
       = [5/8, 0, 1, 1, 0, 1]
   \<and> 0 \<le> total_score (run_accessibility_check mixed_web ''https://example.org'')
   \<and> total_score (run_accessibility_check mixed_web ''https://example.org'') \<le> 100
   \<and> (0 \<le> fst (check_alt_text alt_example) \<and> fst (check_alt_text alt_example) \<le> 1)"
proof -
  have f: "fetch_url mixed_web ''https://example.org'' = Some alt_example"
    by (simp add: fetch_url_def mixed_web_def alt_example_def)
  have t: "total_score (run_accessibility_check mixed_web ''https://example.org'') = 55"
    by code_simp
  have c: "map (\<lambda>(category, details). fst details)
       (categories (run_accessibility_check mixed_web ''https://example.org''))
       = [5/8, 0, 1, 1, 0, 1]"
    by code_simp
  note inst = C3_score_ranges [of alt_example mixed_web "''https://example.org''"]
  have b: "0 \<le> total_score (run_accessibility_check mixed_web ''https://example.org'')
     \<and> total_score (run_accessibility_check mixed_web ''https://example.org'') \<le> 100"
    using inst f by blast
  have a: "0 \<le> fst (check_alt_text alt_example) \<and> fst (check_alt_text alt_example) \<le> 1"
    by (rule conjunct1 [OF inst])
  show ?thesis
    using f t c b a by blast
qed

text \<open>
  C10: the contrast checker never returns an empty issue list: when no element matches
  a pattern it returns the one informational string. So the report of a fetched
  document always has issues, also when its \<^verbatim>\<open>total_score\<close> is 100.
\<close>

theorem C10_issues_nonempty:
  "snd (check_color_contrast soup) \<noteq> []
   \<and> (list_all (\<lambda>element. contrast_hits element = []) (select_style_color soup) \<longrightarrow>
        snd (check_color_contrast soup) =
          [''Limited contrast check performed (inline styles only)''])
   \<and> (fetch_url web u = Some soup \<longrightarrow> issues (run_accessibility_check web u) \<noteq> [])
   \<and> total_score (run_accessibility_check online ''https://example.org'') = 100
   \<and> issues (run_accessibility_check online ''https://example.org'') =
        [''Limited contrast check performed (inline styles only)'']"
proof -
  have a: "snd (check_color_contrast soup) \<noteq> []"
    by (simp add: check_color_contrast_eq Let_def)
  have b: "snd (check_color_contrast soup) =
          [''Limited contrast check performed (inline styles only)'']"
    if "list_all (\<lambda>element. contrast_hits element = []) (select_style_color soup)"
    using that by (simp add: check_color_contrast_eq Let_def list_all_iff)
  have c: "issues (run_accessibility_check web u) \<noteq> []" if "fetch_url web u = Some soup"
    using a by (simp add: run_success [OF that] six_results_def)
  have w: "weighted_average (six_results (Tag ''[document]'' [] perfect_page)) = 1"
    unfolding perfect_results by (simp add: weighted_average_def weight_of_def category_weights_def)
  have d: "total_score (run_accessibility_check online ''https://example.org'') = 100"
    using py_round_of_int [of 100] by (simp add: run_success [OF fetch_online] w)
  have e: "issues (run_accessibility_check online ''https://example.org'') =
        [''Limited contrast check performed (inline styles only)'']"
    by (simp add: run_success [OF fetch_online] perfect_results)
  show ?thesis
    using a b c d e by blast
qed

theorem C10_issues_nonempty_witness:
  "fetch_url online ''https://example.org'' = Some (Tag ''[document]'' [] perfect_page)
   \<and> list_all (\<lambda>element. contrast_hits element = [])
        (select_style_color (Tag ''[document]'' [] perfect_page))
   \<and> snd (check_color_contrast (Tag ''[document]'' [] perfect_page)) =
        [''Limited contrast check performed (inline styles only)'']
   \<and> issues (run_accessibility_check online ''https://example.org'') \<noteq> []
   \<and> total_score (run_accessibility_check online ''https://example.org'') = 100"
proof -
  note inst = C10_issues_nonempty [of "Tag ''[document]'' [] perfect_page" online
      "''https://example.org''"]
  have s: "list_all (\<lambda>element. contrast_hits element = [])
        (select_style_color (Tag ''[document]'' [] perfect_page))"
    by (simp add: select_style_color_def perfect_page_def descendants_def)
  have b: "snd (check_color_contrast (Tag ''[document]'' [] perfect_page)) =
        [''Limited contrast check performed (inline styles only)'']"
    using inst s by blast
  have c: "issues (run_accessibility_check online ''https://example.org'') \<noteq> []"
    using inst fetch_online [of "''https://example.org''"] by blast
  have d: "total_score (run_accessibility_check online ''https://example.org'') = 100"
    using inst by blast
  show ?thesis
    using fetch_online [of "''https://example.org''"] s b c d by blast
qed

end
